theory Spec2Isabelle
  imports Complex_Main "HOL-Library.Multiset"
begin

section \<open>Python string primitives\<close>

text \<open>
  Strings are ASCII strings. \<open>is_space\<close> is the ASCII part of Python's
  \<^verbatim>\<open>str.isspace\<close>, which \<^verbatim>\<open>str.strip()\<close>, \<^verbatim>\<open>str.split()\<close> and the
  regular expression class \<^verbatim>\<open>\s\<close> all share; \<open>is_word\<close> is the ASCII part of \<^verbatim>\<open>\w\<close>.
\<close>

definition is_space :: "char \<Rightarrow> bool" where
  "is_space c = (c \<in> set [CHR 0x09, CHR 0x0A, CHR 0x0B, CHR 0x0C, CHR 0x0D,
                           CHR 0x1C, CHR 0x1D, CHR 0x1E, CHR 0x1F, CHR 0x20])"

definition is_word :: "char \<Rightarrow> bool" where
  "is_word c = (c \<in> set (''abcdefghijklmnopqrstuvwxyz'' @ ''ABCDEFGHIJKLMNOPQRSTUVWXYZ''
                           @ ''0123456789_''))"

definition lower_char :: "char \<Rightarrow> char" where
  "lower_char c = (let n = (of_char c :: nat) in
                   if 65 \<le> n \<and> n \<le> 90 then char_of (n + 32) else c)"

definition lower :: "string \<Rightarrow> string" where
  "lower s = map lower_char s"

definition strip :: "string \<Rightarrow> string" where
  "strip s = rev (dropWhile is_space (rev (dropWhile is_space s)))"


text \<open>\<^verbatim>\<open>sub in s\<close> on strings: \<open>sub\<close> occurs in \<open>s\<close> as a contiguous substring.\<close>

fun starts_with :: "string \<Rightarrow> string \<Rightarrow> bool" where
  "starts_with [] s = True"
| "starts_with (p # ps) [] = False"
| "starts_with (p # ps) (c # cs) = (p = c \<and> starts_with ps cs)"

fun contains :: "string \<Rightarrow> string \<Rightarrow> bool" where
  "contains sub [] = (sub = [])"
| "contains sub (c # cs) = (starts_with sub (c # cs) \<or> contains sub cs)"

text \<open>\<^verbatim>\<open>s.split()\<close>: the maximal runs of non-whitespace characters, in order.
  \<open>split_acc w s\<close> carries the word being read (reversed).\<close>

fun split_acc :: "string \<Rightarrow> string \<Rightarrow> string list" where
  "split_acc w [] = (if w = [] then [] else [rev w])"
| "split_acc w (c # cs) =
     (if is_space c then (if w = [] then split_acc [] cs else rev w # split_acc [] cs)
      else split_acc (c # w) cs)"

definition split :: "string \<Rightarrow> string list" where
  "split s = split_acc [] s"

text \<open>\<^verbatim>\<open>sep.join(xs)\<close> for a one-character separator.\<close>

fun join :: "char \<Rightarrow> string list \<Rightarrow> string" where
  "join sep [] = []"
| "join sep [x] = x"
| "join sep (x # y # ys) = x @ sep # join sep (y # ys)"

section \<open>Exceptions and effects\<close>

text \<open>
  A raised exception is a value: its class and its message (\<^verbatim>\<open>str(e)\<close>).
  \<open>ProviderError\<close> stands for whatever an external service raises;
  \<open>PyException\<close> is the plain \<^verbatim>\<open>Exception\<close> the retriever raises itself.
\<close>

datatype pyexc = ValueError string | ProviderError string | PyException string
  | IndexError string | KeyError string | TypeError string

fun exc_str :: "pyexc \<Rightarrow> string" where
  "exc_str (ValueError m) = m"
| "exc_str (ProviderError m) = m"
| "exc_str (PyException m) = m"
| "exc_str (IndexError m) = m"
| "exc_str (KeyError m) = m"
| "exc_str (TypeError m) = m"

type_synonym embedding = "rat list"

text \<open>The externally visible actions of a call, in the order they happen.\<close>

datatype event =
    EmbedContent string      \<comment> \<open>one call of the provider's \<^verbatim>\<open>genai.embed_content\<close>\<close>
  | Sleep nat                \<comment> \<open>\<^verbatim>\<open>time.sleep(n)\<close>\<close>
  | StoreQuery string int    \<comment> \<open>one nearest-neighbour query of the vector database\<close>

section \<open>Embedding client (src/src/embeddings.py)\<close>

text \<open>
  The argument of \<^verbatim>\<open>embed_text\<close> is a string, a dictionary, or anything else.
  The provider is a parameter: \<open>prov text attempt\<close> is what the \<open>attempt\<close>-th call
  of \<^verbatim>\<open>genai.embed_content\<close> within one \<^verbatim>\<open>embed_text\<close> does, an embedding or an
  exception.
\<close>

datatype embed_input = InStr string | InDict "(string \<times> string) list" | InOther

type_synonym provider = "string \<Rightarrow> nat \<Rightarrow> pyexc + embedding"

record embedder =
  embedding_dimension :: "nat option"

definition max_retries :: nat where
  "max_retries = 3"

definition initial_retry_delay :: nat where
  "initial_retry_delay = 2"

text \<open>
  The loop \<^verbatim>\<open>for attempt in range(max_retries)\<close>. The result is the events,
  and the value returned (\<open>None\<close> when the loop ends without returning) or the
  exception raised.
\<close>

function embed_attempts ::
  "provider \<Rightarrow> string \<Rightarrow> nat \<Rightarrow> nat \<Rightarrow> nat \<Rightarrow> event list \<times> (pyexc + embedding option)" where
  "embed_attempts prov text mx attempt retry_delay =
     (if attempt < mx then
        (case prov text attempt of
           Inr emb \<Rightarrow> ([EmbedContent text], Inr (Some emb))
         | Inl e \<Rightarrow>
             if contains ''429'' (exc_str e) \<and> attempt < mx - 1 then
               (case embed_attempts prov text mx (attempt + 1) (retry_delay * 2) of
                  (tr, r) \<Rightarrow> (EmbedContent text # Sleep retry_delay # tr, r))
             else ([EmbedContent text], Inl e))
      else ([], Inr None))"
  by pat_completeness auto
termination
  by (relation "measure (\<lambda>(prov, text, mx, attempt, retry_delay). mx - attempt)") auto

declare embed_attempts.simps [simp del]

definition embed_text ::
  "provider \<Rightarrow> embedder \<Rightarrow> embed_input \<Rightarrow> event list \<times> embedder \<times> (pyexc + embedding option)" where
  "embed_text prov self inp =
     (case (case inp of
              InDict d \<Rightarrow> (case map_of d ''content'' of
                             None \<Rightarrow> Inl (ValueError ''Dictionary input must have a 'content' key'')
                           | Some t \<Rightarrow> Inr t)
            | InStr t \<Rightarrow> Inr t
            | InOther \<Rightarrow> Inl (ValueError
                ''Input must be either a string or a dictionary with 'content' key'')) of
        Inl e \<Rightarrow> ([], self, Inl e)
      | Inr text \<Rightarrow>
          if strip text = [] then
            ([], self, Inl (ValueError ''Empty or whitespace-only text cannot be embedded''))
          else
            (case embed_attempts prov text max_retries 0 initial_retry_delay of
               (tr, Inr (Some emb)) \<Rightarrow>
                 (tr,
                  (if embedding_dimension self = None
                   then self\<lparr>embedding_dimension := Some (length emb)\<rparr> else self),
                  Inr (Some emb))
             | (tr, r) \<Rightarrow> (tr, self, r)))"

definition provider_calls :: "event list \<Rightarrow> nat" where
  "provider_calls tr = length (filter (\<lambda>ev. case ev of EmbedContent t \<Rightarrow> True | _ \<Rightarrow> False) tr)"

definition sleeps :: "event list \<Rightarrow> nat list" where
  "sleeps tr = concat (map (\<lambda>ev. case ev of Sleep n \<Rightarrow> [n] | _ \<Rightarrow> []) tr)"


definition always_429 :: provider where
  "always_429 text attempt = Inl (ProviderError ''429 Resource exhausted'')"

section \<open>Query classification\<close>

subsection \<open>Heuristic analyser (src/src/query_analyzer.py)\<close>

datatype QA_QueryComplexity = QA_SIMPLE | QA_MEDIUM | QA_COMPLEX

text \<open>\<^verbatim>\<open>len(re.findall(r'\?', query))\<close> and \<^verbatim>\<open>len(re.findall(r'[,;]', query))\<close>:
  the number of characters of the class.\<close>

definition count_chars :: "string \<Rightarrow> string \<Rightarrow> nat" where
  "count_chars cls s = length (filter (\<lambda>c. c \<in> set cls) s)"

text \<open>
  \<^verbatim>\<open>len(re.findall(r'\band\b|\baur\b', query))\<close>: the occurrences of \<^verbatim>\<open>and\<close> or
  \<^verbatim>\<open>aur\<close> with a word boundary on each side, scanned from the left. \<open>pw\<close> says that
  the character before the position is a word character.
\<close>

fun and_matches :: "bool \<Rightarrow> string \<Rightarrow> nat" where
  "and_matches pw (a # b # c # rest) =
     (if \<not> pw \<and> ([a, b, c] = ''and'' \<or> [a, b, c] = ''aur'')
         \<and> (case rest of [] \<Rightarrow> True | r # rs \<Rightarrow> \<not> is_word r)
      then Suc (and_matches True rest)
      else and_matches (is_word a) (b # c # rest))"
| "and_matches pw s = 0"

definition question_count :: "string \<Rightarrow> nat" where
  "question_count query = count_chars ''?'' query"

definition and_count :: "string \<Rightarrow> nat" where
  "and_count query = and_matches False query"

definition concept_count :: "string \<Rightarrow> nat" where
  "concept_count query = count_chars '',;'' query"

definition word_count :: "string \<Rightarrow> nat" where
  "word_count query = length (split query)"

definition determine_complexity :: "string \<Rightarrow> QA_QueryComplexity" where
  "determine_complexity query =
     (if question_count query > 1 \<or> and_count query > 1 \<or> concept_count query > 1
         \<or> word_count query > 20
      then QA_COMPLEX
      else if question_count query = 1 \<or> and_count query = 1 \<or> concept_count query = 1
         \<or> word_count query > 10
      then QA_MEDIUM
      else QA_SIMPLE)"

subsection \<open>Shared models (scalable_chatbot/shared/models.py)\<close>

datatype QueryIntent = GREETING | QUESTION | HOW_TO | PERSONAL_INFO | INAPPROPRIATE

datatype QueryComplexity = SIMPLE | COMPLEX

record QueryAnalysis =
  intent :: QueryIntent
  complexity :: QueryComplexity
  is_greeting :: bool
  is_inappropriate :: bool
  is_step_by_step :: bool
  confidence :: rat

record RetrievalRequest =
  req_query :: string
  req_creator_id :: string
  req_max_chunks :: int
  req_similarity_threshold :: rat

text \<open>\<^verbatim>\<open>RetrievalRequest(query=..., creator_id=...)\<close> with the declared defaults.\<close>

definition default_request :: "string \<Rightarrow> string \<Rightarrow> RetrievalRequest" where
  "default_request q cid =
     \<lparr>req_query = q, req_creator_id = cid, req_max_chunks = 5, req_similarity_threshold = 7 / 10\<rparr>"

record ContextChunk =
  chunk_content :: string
  chunk_source :: string
  chunk_similarity :: rat
  chunk_creator_id :: string
  chunk_metadata :: "(string \<times> string) list"

record RetrievalResponse =
  resp_chunks :: "ContextChunk list"
  resp_total_chunks :: nat
  resp_creator_id :: string
  resp_retrieval_strategy :: string

subsection \<open>Microservice analyser (scalable_chatbot/retrieval_service/retrieval.py)\<close>

definition greetings :: "string list" where
  "greetings = [''hi'', ''hello'', ''hey'', ''namaste'', ''hola'']"

definition inappropriate_keywords :: "string list" where
  "inappropriate_keywords = [''sex'', ''porn'', ''adult'', ''nsfw'']"

definition fallback_analysis :: "string \<Rightarrow> QueryAnalysis" where
  "fallback_analysis query =
     (let query_lower = lower query;
          greeting = list_ex (\<lambda>g. contains g query_lower) greetings;
          step_by_step = (contains ''how to'' query_lower \<or> contains ''steps'' query_lower);
          inappropriate = list_ex (\<lambda>k. contains k query_lower) inappropriate_keywords
      in \<lparr>intent = (if greeting then GREETING
                     else if inappropriate then INAPPROPRIATE
                     else if step_by_step then HOW_TO
                     else QUESTION),
           complexity = (if length (split query) > 10 then COMPLEX else SIMPLE),
           is_greeting = greeting,
           is_inappropriate = inappropriate,
           is_step_by_step = step_by_step,
           confidence = 7 / 10\<rparr>)"

text \<open>
  The generative model is a parameter. What \<^verbatim>\<open>_analyze_query_sync\<close> gets from it is
  an analysis parsed from its JSON answer, or an exception while generating or parsing
  (then the heuristics decide); \<open>ExecutorFailed\<close> is an exception outside of that, caught
  by \<^verbatim>\<open>analyze_query\<close> itself.
\<close>

datatype llm_outcome = ExecutorFailed | AnalysisFailed | Analysed QueryAnalysis

definition default_analysis :: QueryAnalysis where
  "default_analysis =
     \<lparr>intent = QUESTION, complexity = SIMPLE, is_greeting = False, is_inappropriate = False,
      is_step_by_step = False, confidence = 1 / 2\<rparr>"

definition analyze_query :: "(string \<Rightarrow> llm_outcome) \<Rightarrow> string \<Rightarrow> QueryAnalysis" where
  "analyze_query llm query =
     (case llm query of
        ExecutorFailed \<Rightarrow> default_analysis
      | AnalysisFailed \<Rightarrow> fallback_analysis query
      | Analysed a \<Rightarrow> a)"

section \<open>Microservice retriever (scalable_chatbot/retrieval_service/retrieval.py)\<close>

definition determine_strategy :: "QueryAnalysis \<Rightarrow> RetrievalRequest \<Rightarrow> string" where
  "determine_strategy analysis request =
     (if complexity analysis = COMPLEX then ''comprehensive''
      else if intent analysis = HOW_TO then ''focused''
      else if is_step_by_step analysis then ''structured''
      else ''balanced'')"

text \<open>
  The vector database is a parameter: it receives the query that \<^verbatim>\<open>_execute_retrieval\<close>
  builds and answers with an exception, or with the list under
  \<^verbatim>\<open>data.Get.CreatorContent\<close> (\<open>None\<close> when a key on the way is missing or null).
  A field of an item is absent, null, or present.
\<close>

datatype 'a field = Absent | Null | Present 'a

record near_query =
  nq_vector :: embedding
  nq_certainty :: rat
  nq_creator_id :: string
  nq_limit :: int

record witem =
  item_content :: "string option"
  item_source :: "string option"
  item_certainty :: "rat field"
  item_metadata :: "(string \<times> string) list option"

type_synonym weaviate = "near_query \<Rightarrow> pyexc + witem list option"

text \<open>The loop over the items; comparing a null certainty with the threshold raises.\<close>

fun process_items :: "witem list \<Rightarrow> string \<Rightarrow> rat \<Rightarrow> pyexc + ContextChunk list" where
  "process_items [] creator_id similarity_threshold = Inr []"
| "process_items (item # items) creator_id similarity_threshold =
     (case item_certainty item of
        Null \<Rightarrow> Inl (TypeError ''>= not supported between NoneType and float'')
      | f \<Rightarrow>
         (let certainty = (case f of Present c \<Rightarrow> c | _ \<Rightarrow> 0) in
          case process_items items creator_id similarity_threshold of
            Inl e \<Rightarrow> Inl e
          | Inr chunks \<Rightarrow>
              if certainty \<ge> similarity_threshold then
                Inr (\<lparr>chunk_content = (case item_content item of None \<Rightarrow> '''' | Some c \<Rightarrow> c),
                      chunk_source = (case item_source item of None \<Rightarrow> ''unknown'' | Some s \<Rightarrow> s),
                      chunk_similarity = certainty,
                      chunk_creator_id = creator_id,
                      chunk_metadata = (case item_metadata item of None \<Rightarrow> [] | Some m \<Rightarrow> m)\<rparr>
                     # chunks)
              else Inr chunks))"

definition execute_retrieval ::
  "weaviate \<Rightarrow> embedding \<Rightarrow> string \<Rightarrow> string \<Rightarrow> int \<Rightarrow> rat \<Rightarrow> ContextChunk list" where
  "execute_retrieval db query_embedding creator_id strategy max_chunks similarity_threshold =
     (case db \<lparr>nq_vector = query_embedding, nq_certainty = similarity_threshold,
                nq_creator_id = creator_id, nq_limit = max_chunks\<rparr> of
        Inl e \<Rightarrow> []
      | Inr None \<Rightarrow> []
      | Inr (Some items) \<Rightarrow>
          (case process_items items creator_id similarity_threshold of
             Inl e \<Rightarrow> []
           | Inr chunks \<Rightarrow> chunks))"

text \<open>
  \<^verbatim>\<open>retrieve_context\<close>: the events (embedding and store calls) and the outcome. Every
  exception is caught inside, so the outcome is always a response.
\<close>

definition retrieve_context ::
  "(string \<Rightarrow> llm_outcome) \<Rightarrow> (string \<Rightarrow> pyexc + embedding) \<Rightarrow> weaviate \<Rightarrow> RetrievalRequest
     \<Rightarrow> event list \<times> (pyexc + RetrievalResponse)" where
  "retrieve_context llm embedder_fn db request =
     (let query_analysis = analyze_query llm (req_query request) in
      if is_greeting query_analysis \<or> is_inappropriate query_analysis then
        ([], Inr \<lparr>resp_chunks = [], resp_total_chunks = 0,
                  resp_creator_id = req_creator_id request, resp_retrieval_strategy = ''skip''\<rparr>)
      else
        (case embedder_fn (req_query request) of
           Inl e \<Rightarrow>
             ([EmbedContent (req_query request)],
              Inr \<lparr>resp_chunks = [], resp_total_chunks = 0,
                   resp_creator_id = req_creator_id request, resp_retrieval_strategy = ''error''\<rparr>)
         | Inr query_embedding \<Rightarrow>
             (let strategy = determine_strategy query_analysis request;
                  chunks = execute_retrieval db query_embedding (req_creator_id request) strategy
                             (req_max_chunks request) (req_similarity_threshold request)
              in ([EmbedContent (req_query request),
                   StoreQuery (req_creator_id request) (req_max_chunks request)],
                  Inr \<lparr>resp_chunks = chunks, resp_total_chunks = length chunks,
                       resp_creator_id = req_creator_id request,
                       resp_retrieval_strategy = strategy\<rparr>))))"

section \<open>Passage store (src/src/vector_store.py)\<close>

text \<open>
  A collection is the list of its entries, in insertion order. What a query answers has
  the database's shape: one inner list per query embedding.
\<close>

record chroma_entry =
  entry_id :: string
  entry_embedding :: embedding
  entry_document :: string
  entry_metadata :: "(string \<times> string) list"

type_synonym collection = "chroma_entry list"

record query_result =
  documents :: "string list list"
  metadatas :: "(string \<times> string) list list list"
  distances :: "rat list list"

record CreatorVectorStore =
  collections :: "string \<rightharpoonup> collection"

text \<open>The database's \<^verbatim>\<open>collection.query\<close> is a parameter of the store's operations.\<close>

type_synonym chroma = "collection \<Rightarrow> embedding \<Rightarrow> int \<Rightarrow> pyexc + query_result"

definition search_creator ::
  "chroma \<Rightarrow> CreatorVectorStore \<Rightarrow> string \<Rightarrow> embedding \<Rightarrow> int \<Rightarrow> pyexc + query_result" where
  "search_creator backend self creator_id query_embedding n_results =
     (case collections self creator_id of
        None \<Rightarrow> Inr \<lparr>documents = [], metadatas = [], distances = []\<rparr>
      | Some collection \<Rightarrow> backend collection query_embedding n_results)"

text \<open>
  Modelled from the spec: the nearest-neighbour query of the vector database backend
  (\<^verbatim>\<open>chromadb\<close>'s \<^verbatim>\<open>collection.query\<close>, an external library that is not part of the
  sources). Following the store's contract, it answers with the \<open>k\<close> closest entries of
  the collection, or all of them when there are fewer, ordered by ascending distance to
  the query vector. The distance \<open>metric\<close> is a parameter.
\<close>

definition chroma_query :: "(embedding \<Rightarrow> embedding \<Rightarrow> rat) \<Rightarrow> chroma" where
  "chroma_query metric coll query_embedding n_results =
     (let hits = take (nat n_results) (sort_key (\<lambda>e. metric query_embedding (entry_embedding e)) coll)
      in Inr \<lparr>documents = [map entry_document hits],
              metadatas = [map entry_metadata hits],
              distances = [map (\<lambda>e. metric query_embedding (entry_embedding e)) hits]\<rparr>)"

text \<open>Squared Euclidean distance, for concrete examples.\<close>

definition l2 :: "embedding \<Rightarrow> embedding \<Rightarrow> rat" where
  "l2 u v = sum_list (map (\<lambda>(a, b). (a - b) * (a - b)) (zip u v))"

section \<open>Single-process retriever (src/src/retrieval.py)\<close>

record sp_chunk =
  sp_content :: string
  sp_creator_id :: string
  sp_similarity :: rat
  sp_source :: string

record sp_result =
  sp_retrieval_strategy :: string
  sp_total_chunks :: nat
  sp_chunks :: "sp_chunk list"
  sp_best_creator :: "string option"

definition sp_analyze_query :: "string \<Rightarrow> string list" where
  "sp_analyze_query query0 =
     (let query = lower query0;
          t1 = (if list_ex (\<lambda>word. contains word query)
                     [''what'', ''how'', ''why'', ''when'', ''where'', ''which'']
                then [''specific''] else []);
          t2 = t1 @ (if contains ''how'' query \<and> contains ''to'' query then [''how_to''] else []);
          t3 = (if t2 = [] then [''general''] else t2)
      in t3 @ [if length (split query) > 10 then ''complex'' else ''simple''])"

text \<open>Indexing and key lookup raise when out of range or missing.\<close>

definition index :: "'a list \<Rightarrow> nat \<Rightarrow> pyexc + 'a" where
  "index xs i = (if i < length xs then Inr (xs ! i) else Inl (IndexError ''list index out of range''))"

definition getitem :: "(string \<times> string) list \<Rightarrow> string \<Rightarrow> pyexc + string" where
  "getitem d k = (case map_of d k of None \<Rightarrow> Inl (KeyError k) | Some v \<Rightarrow> Inr v)"

text \<open>The chunk built for position \<open>i\<close> of the first result list.\<close>

definition sp_make_chunk :: "query_result \<Rightarrow> string \<Rightarrow> nat \<Rightarrow> pyexc + sp_chunk" where
  "sp_make_chunk results creator_id i =
     (case index (documents results) 0 of Inl e \<Rightarrow> Inl e | Inr docs \<Rightarrow>
      case index docs i of Inl e \<Rightarrow> Inl e | Inr content \<Rightarrow>
      case (if distances results \<noteq> []
            then (case index (distances results) 0 of Inl e \<Rightarrow> Inl e | Inr ds \<Rightarrow> index ds i)
            else Inr 0) of Inl e \<Rightarrow> Inl e | Inr distance \<Rightarrow>
      case (if metadatas results \<noteq> []
            then (case index (metadatas results) 0 of Inl e \<Rightarrow> Inl e | Inr ms \<Rightarrow>
                  case index ms i of Inl e \<Rightarrow> Inl e | Inr m \<Rightarrow> getitem m ''source'')
            else Inr ''unknown'') of Inl e \<Rightarrow> Inl e | Inr source \<Rightarrow>
      Inr \<lparr>sp_content = content, sp_creator_id = creator_id,
           sp_similarity = 1 - distance, sp_source = source\<rparr>)"

fun sp_make_chunks :: "query_result \<Rightarrow> string \<Rightarrow> nat list \<Rightarrow> pyexc + sp_chunk list" where
  "sp_make_chunks results creator_id [] = Inr []"
| "sp_make_chunks results creator_id (i # is) =
     (case sp_make_chunk results creator_id i of
        Inl e \<Rightarrow> Inl e
      | Inr chunk \<Rightarrow>
          (case sp_make_chunks results creator_id is of
             Inl e \<Rightarrow> Inl e
           | Inr chunks \<Rightarrow> Inr (chunk # chunks)))"

definition sp_process_results :: "query_result \<Rightarrow> string \<Rightarrow> pyexc + sp_chunk list" where
  "sp_process_results results creator_id =
     (if documents results \<noteq> [] \<and> hd (documents results) \<noteq> []
      then sp_make_chunks results creator_id [0 ..< length (hd (documents results))]
      else Inr [])"

text \<open>The handler \<^verbatim>\<open>except Exception as e\<close>: the exception raised in place of \<open>e\<close>.\<close>

definition retrieval_error :: "pyexc \<Rightarrow> pyexc" where
  "retrieval_error e =
     (if contains ''429'' (exc_str e)
      then PyException ''Rate limit exceeded. Please wait a moment and try again.''
      else if contains ''embedding'' (lower (exc_str e))
      then PyException ''Unable to process your query. Please try rephrasing it.''
      else PyException ''An error occurred while retrieving context. Please try again.'')"

definition sp_choose_strategy :: "string list \<Rightarrow> int \<times> string" where
  "sp_choose_strategy query_type =
     (if ''specific'' \<in> set query_type then (2, ''focused_search'')
      else if ''how_to'' \<in> set query_type then (3, ''focused_search'')
      else (3, ''balanced_search''))"

text \<open>
  \<^verbatim>\<open>retrieve_context\<close> of the single-process retriever, after its pause between two
  queries (which delays the call and decides nothing). The result is the events, the
  embedder's new state and the outcome. The database is queried only for a creator that
  has a collection. The embedder never returns \<^verbatim>\<open>None\<close>; the branch
  is what the store would do with it: an unknown creator's empty result needs no
  vector, a database query without one is rejected.
\<close>

definition sp_retrieve_context ::
  "provider \<Rightarrow> chroma \<Rightarrow> embedder \<Rightarrow> CreatorVectorStore \<Rightarrow> string \<Rightarrow> string
     \<Rightarrow> event list \<times> embedder \<times> (pyexc + sp_result)" where
  "sp_retrieve_context prov backend emb store query creator_id =
     (let query_type = sp_analyze_query query;
          store_events = (\<lambda>n_results. case collections store creator_id of
                            None \<Rightarrow> [] | Some c \<Rightarrow> [StoreQuery creator_id n_results])
      in
      case embed_text prov emb (InDict [(''content'', query)]) of
        (tr, emb', Inl e) \<Rightarrow> (tr, emb', Inl (retrieval_error e))
      | (tr, emb', Inr query_embedding) \<Rightarrow>
          (case sp_choose_strategy query_type of (n_results, strategy) \<Rightarrow>
           case (case query_embedding of
                   Some v \<Rightarrow> search_creator backend store creator_id v n_results
                 | None \<Rightarrow> (case collections store creator_id of
                              None \<Rightarrow> Inr \<lparr>documents = [], metadatas = [], distances = []\<rparr>
                            | Some c \<Rightarrow> Inl (TypeError ''query embedding is None''))) of
             Inl e \<Rightarrow> (tr @ store_events n_results, emb', Inl (retrieval_error e))
           | Inr results \<Rightarrow>
               (case sp_process_results results creator_id of
                  Inl e \<Rightarrow> (tr @ store_events n_results, emb', Inl (retrieval_error e))
                | Inr chunks \<Rightarrow>
                    (tr @ store_events n_results, emb',
                     Inr \<lparr>sp_retrieval_strategy = strategy,
                          sp_total_chunks = length chunks,
                          sp_chunks = chunks,
                          sp_best_creator = (if chunks \<noteq> [] then Some creator_id else None)\<rparr>))))"

section \<open>Segmenter (src/src/chunking.py, config.py)\<close>

definition CHUNK_SIZE :: int where
  "CHUNK_SIZE = 1000"

definition CHUNK_OVERLAP :: int where
  "CHUNK_OVERLAP = 200"

record SmartChunker =
  chunk_size :: int
  overlap :: int

text \<open>\<^verbatim>\<open>chunk_size or config.CHUNK_SIZE\<close>: \<^verbatim>\<open>None\<close> and \<^verbatim>\<open>0\<close> both give the default.\<close>

definition SmartChunker_init :: "int option \<Rightarrow> int option \<Rightarrow> SmartChunker" where
  "SmartChunker_init size_arg overlap_arg =
     \<lparr>chunk_size = (case size_arg of None \<Rightarrow> CHUNK_SIZE
                      | Some n \<Rightarrow> if n = 0 then CHUNK_SIZE else n),
      overlap = (case overlap_arg of None \<Rightarrow> CHUNK_OVERLAP
                   | Some n \<Rightarrow> if n = 0 then CHUNK_OVERLAP else n)\<rparr>"

text \<open>\<^verbatim>\<open>re.sub(r'\s+', ' ', text)\<close>; \<open>prev\<close> says that the character before was whitespace.\<close>

fun collapse_ws :: "bool \<Rightarrow> string \<Rightarrow> string" where
  "collapse_ws prev [] = []"
| "collapse_ws prev (c # cs) =
     (if is_space c then (if prev then collapse_ws True cs else CHR '' '' # collapse_ws True cs)
      else c # collapse_ws False cs)"

text \<open>The characters that \<^verbatim>\<open>re.sub(r'[^\w\s.,!?;:()\-"]', '', text)\<close> keeps.\<close>

definition kept_char :: "char \<Rightarrow> bool" where
  "kept_char c = (is_word c \<or> is_space c \<or> c \<in> set (''.,!?;:()-'' @ [CHR 0x22]))"

definition clean_text :: "string \<Rightarrow> string" where
  "clean_text text = strip (filter kept_char (collapse_ws False text))"

text \<open>
  \<^verbatim>\<open>re.split(r'[.!?]+\s+', text)\<close>. A separator is a maximal run of \<^verbatim>\<open>.!?\<close> that is
  followed by whitespace, together with all of that whitespace. \<open>cur\<close> is the piece
  being read and \<open>run\<close> the run of \<^verbatim>\<open>.!?\<close> just read (both reversed); \<open>sep\<close> says that
  the whitespace of a separator is being read.
\<close>

definition is_sentence_end :: "char \<Rightarrow> bool" where
  "is_sentence_end c = (c \<in> set ''.!?'')"

fun re_split_sentences :: "string \<Rightarrow> string \<Rightarrow> bool \<Rightarrow> string \<Rightarrow> string list" where
  "re_split_sentences cur run sep [] = [rev (run @ cur)]"
| "re_split_sentences cur run sep (c # cs) =
     (if sep \<and> is_space c then re_split_sentences cur run True cs
      else if is_sentence_end c then re_split_sentences cur (c # run) False cs
      else if run \<noteq> [] \<and> is_space c then rev cur # re_split_sentences [] [] True cs
      else re_split_sentences (c # run @ cur) [] False cs)"

text \<open>\<^verbatim>\<open>s.split(sep)\<close> with a separator character: empty pieces are kept.\<close>

fun split_on :: "char \<Rightarrow> string \<Rightarrow> string \<Rightarrow> string list" where
  "split_on sep w [] = [rev w]"
| "split_on sep w (c # cs) =
     (if c = sep then rev w # split_on sep [] cs else split_on sep (c # w) cs)"

definition split_into_sentences :: "string \<Rightarrow> string list" where
  "split_into_sentences text =
     concat (map (\<lambda>sentence. filter (\<lambda>sub. sub \<noteq> [])
                                (map strip (split_on (CHR 0x0A) [] sentence)))
                 (re_split_sentences [] [] False text))"

text \<open>The loop of \<^verbatim>\<open>_get_overlap_text\<close> over the words from the last to the first.\<close>

fun overlap_loop :: "int \<Rightarrow> string list \<Rightarrow> string list \<Rightarrow> int \<Rightarrow> string list" where
  "overlap_loop overlap_size [] overlap_words char_count = overlap_words"
| "overlap_loop overlap_size (word # ws) overlap_words char_count =
     (if char_count + int (length word) + 1 \<le> overlap_size
      then overlap_loop overlap_size ws (word # overlap_words) (char_count + int (length word) + 1)
      else overlap_words)"

definition get_overlap_text :: "string \<Rightarrow> int \<Rightarrow> string" where
  "get_overlap_text text overlap_size =
     (if int (length text) \<le> overlap_size then text
      else join (CHR '' '') (overlap_loop overlap_size (rev (split text)) [] 0))"

text \<open>The loop of \<^verbatim>\<open>_create_semantic_chunks\<close>, with its two variables.\<close>

fun chunk_loop :: "SmartChunker \<Rightarrow> string list \<Rightarrow> string \<Rightarrow> string list \<Rightarrow> string list" where
  "chunk_loop self chunks current_chunk [] =
     (if current_chunk \<noteq> [] then chunks @ [strip current_chunk] else chunks)"
| "chunk_loop self chunks current_chunk (sentence # sentences) =
     (let potential_chunk =
            (if current_chunk \<noteq> [] then current_chunk @ '' '' @ sentence else sentence)
      in if int (length potential_chunk) \<le> chunk_size self
         then chunk_loop self chunks potential_chunk sentences
         else
           (let chunks' = (if current_chunk \<noteq> [] then chunks @ [strip current_chunk] else chunks)
            in if chunks' \<noteq> [] \<and> overlap self > 0
               then chunk_loop self chunks'
                      (get_overlap_text current_chunk (overlap self) @ '' '' @ sentence) sentences
               else chunk_loop self chunks' sentence sentences))"

definition create_semantic_chunks :: "SmartChunker \<Rightarrow> string list \<Rightarrow> string list" where
  "create_semantic_chunks self sentences = chunk_loop self [] [] sentences"

text \<open>\<^verbatim>\<open>str(i)\<close> for a natural number.\<close>

function str_nat :: "nat \<Rightarrow> string" where
  "str_nat n = (if n < 10 then [char_of (48 + n)]
                else str_nat (n div 10) @ [char_of (48 + n mod 10)])"
  by pat_completeness auto
termination
  by (relation "measure id") auto

declare str_nat.simps [simp del]

record chunk_obj =
  co_content :: string
  co_chunk_id :: string
  co_source :: string
  co_chunk_index :: nat
  co_word_count :: nat
  co_character_count :: nat

definition chunk_text :: "SmartChunker \<Rightarrow> string \<Rightarrow> string \<Rightarrow> chunk_obj list" where
  "chunk_text self text source =
     map (\<lambda>(i, chunk). \<lparr>co_content = chunk,
                        co_chunk_id = source @ ''_chunk_'' @ str_nat i,
                        co_source = source,
                        co_chunk_index = i,
                        co_word_count = length (split chunk),
                        co_character_count = length chunk\<rparr>)
         (enumerate 0 (create_semantic_chunks self (split_into_sentences (clean_text text))))"

section \<open>Concrete environments and inputs\<close>

definition llm_unavailable :: "string \<Rightarrow> llm_outcome" where
  "llm_unavailable q = AnalysisFailed"

definition structured_analysis :: QueryAnalysis where
  "structured_analysis =
     \<lparr>intent = QUESTION, complexity = SIMPLE, is_greeting = False, is_inappropriate = False,
      is_step_by_step = True, confidence = 4 / 5\<rparr>"

definition llm_structured :: "string \<Rightarrow> llm_outcome" where
  "llm_structured q = Analysed structured_analysis"

definition embed_down :: "string \<Rightarrow> pyexc + embedding" where
  "embed_down t = Inl (ProviderError ''503 service unavailable'')"

definition embed_ok :: "string \<Rightarrow> pyexc + embedding" where
  "embed_ok t = Inr [1, 0]"

definition low_item :: witem where
  "low_item = \<lparr>item_content = Some ''Upload twice a week.'',
               item_source = Some ''hawa_singh/growth.txt'',
               item_certainty = Present (3 / 5),
               item_metadata = None\<rparr>"

definition high_item :: witem where
  "high_item = \<lparr>item_content = Some ''Pick one niche.'',
                item_source = Some ''hawa_singh/niche.txt'',
                item_certainty = Present (9 / 10),
                item_metadata = None\<rparr>"

definition db_low :: weaviate where
  "db_low q = Inr (Some [low_item])"

definition db_mixed :: weaviate where
  "db_mixed q = Inr (Some [high_item, low_item])"

definition seo_request :: RetrievalRequest where
  "seo_request = default_request ''tell me about seo'' ''hawa_singh''"

definition hi_request :: RetrievalRequest where
  "hi_request = default_request ''hi'' ''hawa_singh''"

definition which_query :: string where
  "which_query = ''which thumbnail works best''"

definition eleven_words :: string where
  "eleven_words = ''one two three four five six seven eight nine ten eleven''"

text \<open>A database that applies the query's certainty bound and limit to a stored list.\<close>

definition db_filtering :: "witem list \<Rightarrow> weaviate" where
  "db_filtering coll q =
     Inr (Some (take (nat (nq_limit q))
       (filter (\<lambda>i. case item_certainty i of Present c \<Rightarrow> nq_certainty q \<le> c | _ \<Rightarrow> False) coll)))"

definition provider_down :: provider where
  "provider_down text attempt = Inl (ProviderError ''500 internal error'')"

definition provider_ok :: provider where
  "provider_ok text attempt = Inr [1, 0]"

definition entry_a :: chroma_entry where
  "entry_a = \<lparr>entry_id = ''growth.txt_chunk_0'', entry_embedding = [0, 1],
              entry_document = ''Upload twice a week.'',
              entry_metadata = [(''source'', ''hawa_singh/growth.txt'')]\<rparr>"

definition entry_b :: chroma_entry where
  "entry_b = \<lparr>entry_id = ''niche.txt_chunk_0'', entry_embedding = [1, 0],
              entry_document = ''Pick one niche.'',
              entry_metadata = [(''source'', ''hawa_singh/niche.txt'')]\<rparr>"

definition demo_store :: CreatorVectorStore where
  "demo_store = \<lparr>collections = [''hawa_singh'' \<mapsto> [entry_a, entry_b]]\<rparr>"

definition new_embedder :: embedder where
  "new_embedder = \<lparr>embedding_dimension = None\<rparr>"

definition small_chunker :: SmartChunker where
  "small_chunker = SmartChunker_init (Some 10) (Some 5)"

definition small_doc :: string where
  "small_doc = ''aaaa bbbb. cccccccc''"

definition default_chunker :: SmartChunker where
  "default_chunker = SmartChunker_init None None"

section \<open>Properties\<close>

subsection \<open>Embedding client\<close>

lemma strip_blank: "(\<forall>c\<in>set text. is_space c) \<Longrightarrow> strip text = []"
proof -
  assume a: "\<forall>c\<in>set text. is_space c"
  then have d: "dropWhile is_space text = []" by simp
  show ?thesis unfolding strip_def d by simp
qed

lemma embed_attempts_three:
  "embed_attempts prov text 3 0 d =
     (case prov text 0 of
        Inr emb \<Rightarrow> ([EmbedContent text], Inr (Some emb))
      | Inl e \<Rightarrow>
          if \<not> contains ''429'' (exc_str e) then ([EmbedContent text], Inl e)
          else (case prov text 1 of
                  Inr emb \<Rightarrow> ([EmbedContent text, Sleep d, EmbedContent text], Inr (Some emb))
                | Inl e1 \<Rightarrow>
                    if \<not> contains ''429'' (exc_str e1)
                    then ([EmbedContent text, Sleep d, EmbedContent text], Inl e1)
                    else ([EmbedContent text, Sleep d, EmbedContent text, Sleep (d * 2),
                           EmbedContent text], map_sum id Some (prov text 2))))"
proof -
  have two: "embed_attempts prov text 3 (Suc (Suc 0)) d' =
      ([EmbedContent text], map_sum id Some (prov text 2))" for d'
    by (subst embed_attempts.simps) (simp add: numeral_2_eq_2 split: sum.splits)
  have one: "embed_attempts prov text 3 (Suc 0) d' =
      (case prov text 1 of
         Inr emb \<Rightarrow> ([EmbedContent text], Inr (Some emb))
       | Inl e \<Rightarrow> if contains ''429'' (exc_str e)
           then (EmbedContent text # Sleep d' # [EmbedContent text], map_sum id Some (prov text 2))
           else ([EmbedContent text], Inl e))" for d'
    by (subst embed_attempts.simps) (simp add: two split: sum.splits)
  show ?thesis
    by (subst embed_attempts.simps) (simp add: one split: sum.splits)
qed



text \<open>
  C8. An empty or whitespace-only text, given as a string or as the \<^verbatim>\<open>content\<close> of a
  dictionary, makes \<^verbatim>\<open>embed_text\<close> raise the validation error (a \<^verbatim>\<open>ValueError\<close>) with
  an empty trace: the provider is not called.
\<close>

theorem embed_text_blank_rejected:
  assumes "\<forall>c\<in>set text. is_space c"
  shows "embed_text prov self (InStr text) =
           ([], self, Inl (ValueError ''Empty or whitespace-only text cannot be embedded''))
       \<and> (map_of d ''content'' = Some text \<longrightarrow>
            embed_text prov self (InDict d) =
              ([], self, Inl (ValueError ''Empty or whitespace-only text cannot be embedded'')))
       \<and> provider_calls (fst (embed_text prov self (InStr text))) = 0"
  using strip_blank [OF assms] by (simp add: embed_text_def provider_calls_def)

theorem embed_text_blank_rejected_witness:
  "list_all is_space ''   ''
   \<and> embed_text always_429 \<lparr>embedding_dimension = None\<rparr> (InStr ''   '') =
       ([], \<lparr>embedding_dimension = None\<rparr>,
        Inl (ValueError ''Empty or whitespace-only text cannot be embedded''))
   \<and> embed_text always_429 \<lparr>embedding_dimension = None\<rparr> (InDict [(''content'', ''   '')]) =
       ([], \<lparr>embedding_dimension = None\<rparr>,
        Inl (ValueError ''Empty or whitespace-only text cannot be embedded''))"
proof -
  have h: "\<forall>c\<in>set ''   ''. is_space c" by (simp add: is_space_def)
  show ?thesis
    using h embed_text_blank_rejected [OF h, of always_429 "\<lparr>embedding_dimension = None\<rparr>"
        "[(''content'', ''   '')]"]
    by (simp add: list_all_iff)
qed

subsection \<open>Microservice retriever\<close>

text \<open>
  C2. When the analysis of the query says greeting or inappropriate, \<^verbatim>\<open>retrieve_context\<close>
  returns the response with no chunks and strategy \<^verbatim>\<open>skip\<close>, and its event trace is
  empty: neither the embedding service nor the vector database has been called.
\<close>

theorem retrieve_context_skip:
  assumes "is_greeting (analyze_query llm (req_query request))
           \<or> is_inappropriate (analyze_query llm (req_query request))"
  shows "retrieve_context llm embedder_fn db request =
           ([], Inr \<lparr>resp_chunks = [], resp_total_chunks = 0,
                     resp_creator_id = req_creator_id request,
                     resp_retrieval_strategy = ''skip''\<rparr>)"
  using assms by (simp add: retrieve_context_def Let_def)

lemma fallback_hi: "is_greeting (fallback_analysis ''hi'')"
  by code_simp

theorem retrieve_context_skip_witness:
  "is_greeting (analyze_query llm_unavailable (req_query hi_request))
   \<and> retrieve_context llm_unavailable embed_ok db_mixed hi_request =
       ([], Inr \<lparr>resp_chunks = [], resp_total_chunks = 0, resp_creator_id = ''hawa_singh'',
                 resp_retrieval_strategy = ''skip''\<rparr>)"
proof -
  have h: "is_greeting (analyze_query llm_unavailable (req_query hi_request))"
    using fallback_hi
    by (simp add: analyze_query_def llm_unavailable_def default_request_def hi_request_def)
  then have "is_greeting (analyze_query llm_unavailable (req_query hi_request))
           \<or> is_inappropriate (analyze_query llm_unavailable (req_query hi_request))" by simp
  from retrieve_context_skip [OF this, of embed_ok db_mixed] h
  show ?thesis by (simp add: default_request_def hi_request_def)
qed

text \<open>
  C4, as the claim states it, fails: an analysis that is neither complex nor of intent
  \<^verbatim>\<open>HOW_TO\<close>, with the step-by-step flag set, is given the fourth label \<^verbatim>\<open>structured\<close>,
  also through \<^verbatim>\<open>retrieve_context\<close>.
\<close>

theorem determine_strategy_counterexample:
  "complexity structured_analysis \<noteq> COMPLEX
   \<and> intent structured_analysis \<noteq> HOW_TO
   \<and> \<not> is_greeting structured_analysis
   \<and> \<not> is_inappropriate structured_analysis
   \<and> determine_strategy structured_analysis seo_request = ''structured''
   \<and> determine_strategy structured_analysis seo_request \<noteq> ''balanced''
   \<and> map_sum id resp_retrieval_strategy
        (snd (retrieve_context llm_structured embed_ok db_mixed seo_request)) = Inr ''structured''"
  by (simp add: structured_analysis_def determine_strategy_def retrieve_context_def
      analyze_query_def llm_structured_def embed_ok_def Let_def)

lemma fallback_not_structured:
  assumes "\<not> is_greeting (fallback_analysis q)" and "\<not> is_inappropriate (fallback_analysis q)"
  shows "is_step_by_step (fallback_analysis q) \<longrightarrow> intent (fallback_analysis q) = HOW_TO"
  using assms by (simp add: fallback_analysis_def Let_def)

text \<open>
  C4, amended. \<^verbatim>\<open>_determine_strategy\<close> is the mapping: complex gives
  \<^verbatim>\<open>comprehensive\<close>; otherwise intent \<^verbatim>\<open>HOW_TO\<close> gives \<^verbatim>\<open>focused\<close>; otherwise a set
  step-by-step flag gives \<^verbatim>\<open>structured\<close>; otherwise \<^verbatim>\<open>balanced\<close>. No other label is
  selected. When the analysis comes from the heuristics and the query is not skipped,
  \<^verbatim>\<open>structured\<close> is not selected either and the three-way mapping of the claim holds.
\<close>

theorem determine_strategy_mapping:
  "determine_strategy a r =
     (if complexity a = COMPLEX then ''comprehensive''
      else if intent a = HOW_TO then ''focused''
      else if is_step_by_step a then ''structured''
      else ''balanced'')
   \<and> determine_strategy a r \<in> {''comprehensive'', ''focused'', ''structured'', ''balanced''}
   \<and> (\<not> is_greeting (fallback_analysis q) \<and> \<not> is_inappropriate (fallback_analysis q) \<longrightarrow>
        determine_strategy (fallback_analysis q) r =
          (if complexity (fallback_analysis q) = COMPLEX then ''comprehensive''
           else if intent (fallback_analysis q) = HOW_TO then ''focused''
           else ''balanced''))"
proof -
  have "\<not> is_greeting (fallback_analysis q) \<and> \<not> is_inappropriate (fallback_analysis q) \<longrightarrow>
        determine_strategy (fallback_analysis q) r =
          (if complexity (fallback_analysis q) = COMPLEX then ''comprehensive''
           else if intent (fallback_analysis q) = HOW_TO then ''focused''
           else ''balanced'')"
    using fallback_not_structured [of q] by (auto simp: determine_strategy_def)
  then show ?thesis by (simp add: determine_strategy_def)
qed

lemma fallback_how_to:
  "\<not> is_greeting (fallback_analysis ''how to grow my channel'')
   \<and> \<not> is_inappropriate (fallback_analysis ''how to grow my channel'')
   \<and> complexity (fallback_analysis ''how to grow my channel'') = SIMPLE
   \<and> intent (fallback_analysis ''how to grow my channel'') = HOW_TO"
  by code_simp

theorem determine_strategy_mapping_witness:
  "\<not> is_greeting (fallback_analysis ''how to grow my channel'')
   \<and> \<not> is_inappropriate (fallback_analysis ''how to grow my channel'')
   \<and> determine_strategy (fallback_analysis ''how to grow my channel'') seo_request = ''focused''
   \<and> determine_strategy structured_analysis seo_request = ''structured''"
  using determine_strategy_mapping [of structured_analysis seo_request "''how to grow my channel''"]
    determine_strategy_mapping [of "fallback_analysis ''how to grow my channel''" seo_request
      "''how to grow my channel''"] fallback_how_to
  by (simp add: structured_analysis_def)

subsection \<open>Query classification\<close>

lemma what_is_seo_counts:
  "question_count ''what is seo?'' = 1 \<and> and_count ''what is seo?'' = 0
   \<and> concept_count ''what is seo?'' = 0 \<and> word_count ''what is seo?'' = 3"
  by code_simp

lemma eleven_words_counts:
  "question_count eleven_words = 0 \<and> and_count eleven_words = 0
   \<and> concept_count eleven_words = 0 \<and> word_count eleven_words = 11"
  by code_simp

text \<open>
  C5, as the claim states it, fails twice. The heuristic analyser has a third label:
  a query with one question mark and nothing else is \<^verbatim>\<open>MEDIUM\<close>, neither
  \<^verbatim>\<open>COMPLEX\<close> nor \<^verbatim>\<open>SIMPLE\<close>. The microservice's fallback looks at the number of words
  only, with the bound 10: eleven words with no question mark, conjunction, comma or
  semicolon are \<^verbatim>\<open>COMPLEX\<close>.
\<close>

theorem complexity_counterexample:
  "\<not> (question_count ''what is seo?'' > 1 \<or> and_count ''what is seo?'' > 1
       \<or> concept_count ''what is seo?'' > 1 \<or> word_count ''what is seo?'' > 20)
   \<and> determine_complexity ''what is seo?'' = QA_MEDIUM
   \<and> determine_complexity ''what is seo?'' \<noteq> QA_SIMPLE
   \<and> \<not> (question_count eleven_words > 1 \<or> and_count eleven_words > 1
       \<or> concept_count eleven_words > 1 \<or> word_count eleven_words > 20)
   \<and> complexity (fallback_analysis eleven_words) = COMPLEX"
  using what_is_seo_counts eleven_words_counts
  by (simp add: determine_complexity_def fallback_analysis_def Let_def word_count_def)

text \<open>
  C5, amended. In \<^verbatim>\<open>QueryAnalyzer._determine_complexity\<close> the label is \<^verbatim>\<open>COMPLEX\<close>
  exactly when the query has more than one question mark, more than one whole-word
  \<^verbatim>\<open>and\<close>/\<^verbatim>\<open>aur\<close>, more than one comma or semicolon, or more than 20 words; it is
  \<^verbatim>\<open>SIMPLE\<close> exactly when it has none of the three marks and at most 10 words; it is
  \<^verbatim>\<open>MEDIUM\<close> in every other case. In the microservice's \<^verbatim>\<open>_fallback_analysis\<close> the label
  is \<^verbatim>\<open>COMPLEX\<close> exactly when the query has more than 10 words, and \<^verbatim>\<open>SIMPLE\<close>
  otherwise.
\<close>

theorem complexity_labels:
  "(determine_complexity q = QA_COMPLEX) =
     (question_count q > 1 \<or> and_count q > 1 \<or> concept_count q > 1 \<or> word_count q > 20)
   \<and> (determine_complexity q = QA_SIMPLE) =
     (question_count q = 0 \<and> and_count q = 0 \<and> concept_count q = 0 \<and> word_count q \<le> 10)
   \<and> (determine_complexity q = QA_MEDIUM) =
     (question_count q \<le> 1 \<and> and_count q \<le> 1 \<and> concept_count q \<le> 1 \<and> word_count q \<le> 20
      \<and> (question_count q = 1 \<or> and_count q = 1 \<or> concept_count q = 1 \<or> word_count q > 10))
   \<and> (complexity (fallback_analysis q) = COMPLEX) = (word_count q > 10)
   \<and> (complexity (fallback_analysis q) = SIMPLE) = (word_count q \<le> 10)"
  by (auto simp: determine_complexity_def fallback_analysis_def Let_def word_count_def)

theorem complexity_labels_witness:
  "determine_complexity ''what is seo?'' = QA_MEDIUM
   \<and> complexity (fallback_analysis eleven_words) = COMPLEX"
  using complexity_labels [of "''what is seo?''"] complexity_labels [of eleven_words]
    what_is_seo_counts eleven_words_counts
  by simp

text \<open>
  C6. The fallback analysis tests whether a greeting token occurs anywhere in the
  lower-cased query. \<^verbatim>\<open>which thumbnail works best\<close> is not a greeting and contains
  \<^verbatim>\<open>hi\<close> inside \<^verbatim>\<open>which\<close>: it is classified as a greeting, its intent is \<^verbatim>\<open>GREETING\<close>
  and its retrieval is skipped.
\<close>

theorem fallback_greeting_substring:
  "which_query \<notin> set greetings
   \<and> is_greeting (fallback_analysis which_query)
   \<and> intent (fallback_analysis which_query) = GREETING
   \<and> retrieve_context llm_unavailable embed_ok db_mixed (default_request which_query ''hawa_singh'') =
       ([], Inr \<lparr>resp_chunks = [], resp_total_chunks = 0, resp_creator_id = ''hawa_singh'',
                 resp_retrieval_strategy = ''skip''\<rparr>)"
proof -
  have a: "which_query \<notin> set greetings" by (simp add: which_query_def greetings_def)
  have b: "is_greeting (fallback_analysis which_query)
           \<and> intent (fallback_analysis which_query) = GREETING" by code_simp
  show ?thesis using a b
    by (simp add: retrieve_context_def analyze_query_def llm_unavailable_def default_request_def)
qed

subsection \<open>Threshold filtering in the microservice\<close>

lemma process_items_similarity:
  "process_items items cid thr = Inr chunks \<Longrightarrow> \<forall>c\<in>set chunks. thr \<le> chunk_similarity c"
proof (induction items arbitrary: chunks)
  case Nil
  then show ?case by simp
next
  case (Cons item items)
  then show ?case
    by (auto simp: Let_def split: field.splits sum.splits if_splits)
qed

lemma process_items_all_low:
  "\<forall>i\<in>set items. \<exists>c. item_certainty i = Present c \<and> c < thr \<Longrightarrow>
   process_items items cid thr = Inr []"
  by (induction items) (auto simp: Let_def)

text \<open>
  C10. Every chunk that \<^verbatim>\<open>_execute_retrieval\<close> returns has a similarity of at least the
  threshold: an item below it is dropped without an error. The threshold is also the
  certainty bound of the nearest-neighbour query: the result depends on the database only
  through its answer to the query carrying that bound. When the database answers with
  items that are all below the threshold, the result is empty although the items are
  not. For a query that is not skipped and whose embedding succeeds, \<^verbatim>\<open>retrieve_context\<close>
  returns these chunks with the selected strategy, which is not an error response.
\<close>

theorem execute_retrieval_threshold:
  "(\<forall>c\<in>set (execute_retrieval db emb cid strat k thr). thr \<le> chunk_similarity c)
   \<and> (db \<lparr>nq_vector = emb, nq_certainty = thr, nq_creator_id = cid, nq_limit = k\<rparr> =
        db' \<lparr>nq_vector = emb, nq_certainty = thr, nq_creator_id = cid, nq_limit = k\<rparr> \<longrightarrow>
        execute_retrieval db emb cid strat k thr = execute_retrieval db' emb cid strat k thr)
   \<and> (db \<lparr>nq_vector = emb, nq_certainty = thr, nq_creator_id = cid, nq_limit = k\<rparr> =
          Inr (Some items)
        \<and> (\<forall>i\<in>set items. \<exists>c. item_certainty i = Present c \<and> c < thr) \<longrightarrow>
        execute_retrieval db emb cid strat k thr = [])
   \<and> (\<not> is_greeting (analyze_query llm (req_query request))
        \<and> \<not> is_inappropriate (analyze_query llm (req_query request))
        \<and> embedder_fn (req_query request) = Inr emb \<longrightarrow>
        snd (retrieve_context llm embedder_fn db request) =
          Inr \<lparr>resp_chunks = execute_retrieval db emb (req_creator_id request)
                  (determine_strategy (analyze_query llm (req_query request)) request)
                  (req_max_chunks request) (req_similarity_threshold request),
               resp_total_chunks = length (execute_retrieval db emb (req_creator_id request)
                  (determine_strategy (analyze_query llm (req_query request)) request)
                  (req_max_chunks request) (req_similarity_threshold request)),
               resp_creator_id = req_creator_id request,
               resp_retrieval_strategy =
                 determine_strategy (analyze_query llm (req_query request)) request\<rparr>)"
proof -
  have a: "\<forall>c\<in>set (execute_retrieval db emb cid strat k thr). thr \<le> chunk_similarity c"
    by (auto simp: execute_retrieval_def split: sum.splits option.splits
        dest!: process_items_similarity [OF sym])
  have b: "db \<lparr>nq_vector = emb, nq_certainty = thr, nq_creator_id = cid, nq_limit = k\<rparr> =
          Inr (Some items)
        \<and> (\<forall>i\<in>set items. \<exists>c. item_certainty i = Present c \<and> c < thr) \<longrightarrow>
        execute_retrieval db emb cid strat k thr = []"
    using process_items_all_low [of items thr cid]
    by (auto simp: execute_retrieval_def)
  show ?thesis using a b
    by (simp add: execute_retrieval_def retrieve_context_def Let_def)
qed

lemma seo_not_skipped:
  "\<not> is_greeting (analyze_query llm_unavailable (req_query seo_request))
   \<and> \<not> is_inappropriate (analyze_query llm_unavailable (req_query seo_request))
   \<and> determine_strategy (analyze_query llm_unavailable (req_query seo_request)) seo_request
       = ''balanced''"
  by code_simp

theorem execute_retrieval_threshold_witness:
  "snd (retrieve_context llm_unavailable embed_ok db_low seo_request) =
     Inr \<lparr>resp_chunks = [], resp_total_chunks = 0, resp_creator_id = ''hawa_singh'',
          resp_retrieval_strategy = ''balanced''\<rparr>
   \<and> snd (retrieve_context llm_unavailable embed_ok (db_filtering [low_item]) seo_request) =
     Inr \<lparr>resp_chunks = [], resp_total_chunks = 0, resp_creator_id = ''hawa_singh'',
          resp_retrieval_strategy = ''balanced''\<rparr>
   \<and> execute_retrieval db_mixed [1, 0] ''hawa_singh'' ''balanced'' 5 (7 / 10) =
       [\<lparr>chunk_content = ''Pick one niche.'', chunk_source = ''hawa_singh/niche.txt'',
         chunk_similarity = 9 / 10, chunk_creator_id = ''hawa_singh'', chunk_metadata = []\<rparr>]"
proof -
  have e: "embed_ok (req_query seo_request) = Inr [1, 0]" by (simp add: embed_ok_def)
  have "item_certainty low_item = Present (3 / 5) \<and> (3 / 5 :: rat) < 7 / 10"
    by (simp add: low_item_def)
  then have "\<exists>c. item_certainty low_item = Present c \<and> c < 7 / 10"
    by blast
  then have "\<forall>i\<in>set [low_item]. \<exists>c. item_certainty i = Present c \<and> c < 7 / 10"
    by simp
  then have l: "db_low \<lparr>nq_vector = [1, 0], nq_certainty = 7 / 10, nq_creator_id = ''hawa_singh'',
                   nq_limit = 5\<rparr> = Inr (Some [low_item])
           \<and> (\<forall>i\<in>set [low_item]. \<exists>c. item_certainty i = Present c \<and> c < 7 / 10)"
    by (simp add: db_low_def)
  have f: "db_filtering [low_item] \<lparr>nq_vector = [1, 0], nq_certainty = 7 / 10,
             nq_creator_id = ''hawa_singh'', nq_limit = 5\<rparr> = Inr (Some [])"
    by (simp add: db_filtering_def low_item_def)
  have r: "req_creator_id seo_request = ''hawa_singh'' \<and> req_max_chunks seo_request = 5
           \<and> req_similarity_threshold seo_request = 7 / 10"
    by (simp add: seo_request_def default_request_def)
  have m: "execute_retrieval db_mixed [1, 0] ''hawa_singh'' ''balanced'' 5 (7 / 10) =
       [\<lparr>chunk_content = ''Pick one niche.'', chunk_source = ''hawa_singh/niche.txt'',
         chunk_similarity = 9 / 10, chunk_creator_id = ''hawa_singh'', chunk_metadata = []\<rparr>]"
    by (simp add: execute_retrieval_def db_mixed_def high_item_def low_item_def Let_def)
  show ?thesis
    using execute_retrieval_threshold [of db_low "[1, 0]" "''hawa_singh''" "''balanced''" 5 "7 / 10"
        db_low "[low_item]" llm_unavailable seo_request embed_ok]
      execute_retrieval_threshold [of "db_filtering [low_item]" "[1, 0]" "''hawa_singh''"
        "''balanced''" 5 "7 / 10" "db_filtering [low_item]" "[]" llm_unavailable seo_request embed_ok]
      seo_not_skipped e l f r m
    by simp
qed

subsection \<open>Embedding failures in the two retrievers\<close>

lemma map_sum_Some_neq_None: "map_sum id Some r \<noteq> Inr None"
  by (cases r) auto

lemma embed_text_never_None: "snd (snd (embed_text prov emb inp)) \<noteq> Inr None"
  by (auto simp: map_sum_Some_neq_None embed_text_def embed_attempts_three max_retries_def
      split: sum.splits option.splits prod.splits embed_input.splits if_splits)

text \<open>
  C1, as the claim states it, fails in the microservice: the embedding call raises, and
  \<^verbatim>\<open>retrieve_context\<close> returns a response with an empty chunk list.
\<close>

theorem embedding_failure_counterexample:
  "embed_down (req_query seo_request) = Inl (ProviderError ''503 service unavailable'')
   \<and> retrieve_context llm_unavailable embed_down db_mixed seo_request =
       ([EmbedContent ''tell me about seo''],
        Inr \<lparr>resp_chunks = [], resp_total_chunks = 0, resp_creator_id = ''hawa_singh'',
             resp_retrieval_strategy = ''error''\<rparr>)"
  using seo_not_skipped
  by (simp add: retrieve_context_def embed_down_def seo_request_def default_request_def)

text \<open>
  C1, amended. In the single-process retriever an embedding failure makes
  \<^verbatim>\<open>retrieve_context\<close> raise: the exception is replaced by the retriever's own and no
  result is returned. In the microservice retriever, for a query that is not skipped, an
  embedding failure is caught: \<^verbatim>\<open>retrieve_context\<close> returns the response with no chunks
  and the strategy label \<^verbatim>\<open>error\<close>, after the one embedding call and without a store
  query.
\<close>

theorem embedding_failure_outcome:
  "(snd (snd (embed_text prov emb (InDict [(''content'', query)]))) = Inl e \<longrightarrow>
      snd (snd (sp_retrieve_context prov backend emb store query creator_id)) =
        Inl (retrieval_error e))
   \<and> (\<not> is_greeting (analyze_query llm (req_query request))
        \<and> \<not> is_inappropriate (analyze_query llm (req_query request))
        \<and> embedder_fn (req_query request) = Inl e' \<longrightarrow>
      retrieve_context llm embedder_fn db request =
        ([EmbedContent (req_query request)],
         Inr \<lparr>resp_chunks = [], resp_total_chunks = 0,
              resp_creator_id = req_creator_id request, resp_retrieval_strategy = ''error''\<rparr>))"
  by (auto simp: sp_retrieve_context_def retrieve_context_def Let_def split: prod.splits sum.splits)

lemma embed_text_provider_down:
  "snd (snd (embed_text provider_down new_embedder (InDict [(''content'', ''tell me about seo'')])))
     = Inl (ProviderError ''500 internal error'')"
  by code_simp

theorem embedding_failure_outcome_witness:
  "snd (snd (sp_retrieve_context provider_down (chroma_query l2) new_embedder demo_store
               ''tell me about seo'' ''hawa_singh'')) =
     Inl (PyException ''An error occurred while retrieving context. Please try again.'')
   \<and> snd (retrieve_context llm_unavailable embed_down db_mixed seo_request) =
       Inr \<lparr>resp_chunks = [], resp_total_chunks = 0, resp_creator_id = ''hawa_singh'',
            resp_retrieval_strategy = ''error''\<rparr>"
proof -
  have c: "retrieval_error (ProviderError ''500 internal error'') =
           PyException ''An error occurred while retrieving context. Please try again.''"
    by code_simp
  have d: "embed_down (req_query seo_request) = Inl (ProviderError ''503 service unavailable'')
           \<and> req_creator_id seo_request = ''hawa_singh''"
    by (simp add: embed_down_def seo_request_def default_request_def)
  show ?thesis
    using embedding_failure_outcome [of provider_down new_embedder "''tell me about seo''"
        "ProviderError ''500 internal error''" "chroma_query l2" demo_store "''hawa_singh''"
        llm_unavailable seo_request embed_down "ProviderError ''503 service unavailable''" db_mixed]
      embed_text_provider_down seo_not_skipped c d
    by simp
qed

subsection \<open>Passage store\<close>

lemma chroma_query_ranked:
  "chroma_query metric coll v k =
     Inr \<lparr>documents = [map entry_document
                         (take (nat k) (sort_key (\<lambda>e. metric v (entry_embedding e)) coll))],
          metadatas = [map entry_metadata
                         (take (nat k) (sort_key (\<lambda>e. metric v (entry_embedding e)) coll))],
          distances = [map (\<lambda>e. metric v (entry_embedding e))
                         (take (nat k) (sort_key (\<lambda>e. metric v (entry_embedding e)) coll))]\<rparr>"
  by (simp add: chroma_query_def Let_def)

text \<open>
  C9. For a creator without a collection, \<^verbatim>\<open>search_creator\<close> returns the empty result
  and does not raise, whatever the database, the query vector and \<open>k\<close> are. For a
  creator with a collection, with the database answering as the store's contract says,
  the result is read off a ranking of the collection: all its entries, in an order of
  ascending distance to the query vector. Position by position the result holds the
  document, the metadata and the distance of the same entry, for the first \<open>k\<close> entries
  of the ranking: closest first. When the collection has fewer than \<open>k\<close> entries, these
  are all of them, so fewer than \<open>k\<close> results.
\<close>

theorem search_creator_contract:
  "(collections self creator_id = None \<longrightarrow>
      search_creator backend self creator_id v k =
        Inr \<lparr>documents = [], metadatas = [], distances = []\<rparr>)
   \<and> (collections self creator_id = Some coll \<longrightarrow>
        (\<exists>ranked.
           mset ranked = mset coll
           \<and> sorted (map (\<lambda>e. metric v (entry_embedding e)) ranked)
           \<and> search_creator (chroma_query metric) self creator_id v k =
               Inr \<lparr>documents = [map entry_document (take (nat k) ranked)],
                    metadatas = [map entry_metadata (take (nat k) ranked)],
                    distances = [map (\<lambda>e. metric v (entry_embedding e)) (take (nat k) ranked)]\<rparr>
           \<and> sorted (map (\<lambda>e. metric v (entry_embedding e)) (take (nat k) ranked))
           \<and> (int (length coll) < k \<longrightarrow>
                take (nat k) ranked = ranked \<and> length ranked = length coll
                \<and> int (length ranked) < k)))"
proof (intro conjI impI)
  assume "collections self creator_id = None"
  then show "search_creator backend self creator_id v k =
        Inr \<lparr>documents = [], metadatas = [], distances = []\<rparr>"
    by (simp add: search_creator_def)
next
  assume a: "collections self creator_id = Some coll"
  let ?f = "\<lambda>e. metric v (entry_embedding e)"
  let ?ranked = "sort_key ?f coll"
  have q: "search_creator (chroma_query metric) self creator_id v k =
      Inr \<lparr>documents = [map entry_document (take (nat k) ?ranked)],
           metadatas = [map entry_metadata (take (nat k) ?ranked)],
           distances = [map ?f (take (nat k) ?ranked)]\<rparr>"
    using a by (simp add: search_creator_def chroma_query_ranked)
  have s: "sorted (map ?f ?ranked)" by (rule sorted_sort_key)
  have "sorted (take (nat k) (map ?f ?ranked))" using s by (rule sorted_wrt_take)
  then have st: "sorted (map ?f (take (nat k) ?ranked))" by (simp add: take_map)
  have m: "mset ?ranked = mset coll" by simp
  have l: "int (length coll) < k \<longrightarrow>
        take (nat k) ?ranked = ?ranked \<and> length ?ranked = length coll \<and> int (length ?ranked) < k"
    by simp
  show "\<exists>ranked.
           mset ranked = mset coll
           \<and> sorted (map (\<lambda>e. metric v (entry_embedding e)) ranked)
           \<and> search_creator (chroma_query metric) self creator_id v k =
               Inr \<lparr>documents = [map entry_document (take (nat k) ranked)],
                    metadatas = [map entry_metadata (take (nat k) ranked)],
                    distances = [map (\<lambda>e. metric v (entry_embedding e)) (take (nat k) ranked)]\<rparr>
           \<and> sorted (map (\<lambda>e. metric v (entry_embedding e)) (take (nat k) ranked))
           \<and> (int (length coll) < k \<longrightarrow>
                take (nat k) ranked = ranked \<and> length ranked = length coll
                \<and> int (length ranked) < k)"
    using m s q st l by (intro exI [of _ ?ranked] conjI)
qed

lemma demo_search:
  "search_creator (chroma_query l2) demo_store ''hawa_singh'' [1, 0] 5 =
     Inr \<lparr>documents = [[''Pick one niche.'', ''Upload twice a week.'']],
          metadatas = [[[(''source'', ''hawa_singh/niche.txt'')],
                        [(''source'', ''hawa_singh/growth.txt'')]]],
          distances = [[0, 2]]\<rparr>
   \<and> search_creator (chroma_query l2) demo_store ''hawa_singh'' [1, 0] 1 =
     Inr \<lparr>documents = [[''Pick one niche.'']],
          metadatas = [[[(''source'', ''hawa_singh/niche.txt'')]]],
          distances = [[0]]\<rparr>"
  by code_simp

lemma demo_distances:
  "l2 [1, 0] (entry_embedding entry_a) = 2 \<and> l2 [1, 0] (entry_embedding entry_b) = 0"
  by code_simp

theorem search_creator_contract_witness:
  "collections demo_store ''nobody'' = None
   \<and> search_creator (chroma_query l2) demo_store ''nobody'' [1, 0] 5 =
       Inr \<lparr>documents = [], metadatas = [], distances = []\<rparr>
   \<and> collections demo_store ''hawa_singh'' = Some [entry_a, entry_b]
   \<and> l2 [1, 0] (entry_embedding entry_a) = 2
   \<and> l2 [1, 0] (entry_embedding entry_b) = 0
   \<and> search_creator (chroma_query l2) demo_store ''hawa_singh'' [1, 0] 5 =
       Inr \<lparr>documents = [[''Pick one niche.'', ''Upload twice a week.'']],
            metadatas = [[[(''source'', ''hawa_singh/niche.txt'')],
                          [(''source'', ''hawa_singh/growth.txt'')]]],
            distances = [[0, 2]]\<rparr>
   \<and> search_creator (chroma_query l2) demo_store ''hawa_singh'' [1, 0] 1 =
       Inr \<lparr>documents = [[''Pick one niche.'']],
            metadatas = [[[(''source'', ''hawa_singh/niche.txt'')]]],
            distances = [[0]]\<rparr>"
proof -
  have n: "collections demo_store ''nobody'' = None" by (simp add: demo_store_def)
  have h: "collections demo_store ''hawa_singh'' = Some [entry_a, entry_b]"
    by (simp add: demo_store_def)
  show ?thesis
    using search_creator_contract [of demo_store "''nobody''" "chroma_query l2" "[1, 0]" 5
        "[entry_a, entry_b]" l2]
      search_creator_contract [of demo_store "''hawa_singh''" "chroma_query l2" "[1, 0]" 5
        "[entry_a, entry_b]" l2] n h demo_search demo_distances
    by simp
qed

subsection \<open>Segmenter\<close>

text \<open>
  C3. With a maximum passage size of 10 and an overlap of 5, the document
  \<^verbatim>\<open>aaaa bbbb. cccccccc\<close> has the two sentences \<^verbatim>\<open>aaaa bbbb\<close> and \<^verbatim>\<open>cccccccc\<close>, of 9
  and 8 characters. Its second passage is \<^verbatim>\<open>bbbb cccccccc\<close>, the overlap of the first
  passage followed by the second sentence: 13 characters, more than the maximum, and not
  a single sentence that alone exceeds it.
\<close>

theorem chunk_text_overlap_exceeds_limit:
  "chunk_size small_chunker = 10
   \<and> overlap small_chunker = 5
   \<and> split_into_sentences (clean_text small_doc) = [''aaaa bbbb'', ''cccccccc'']
   \<and> map co_content (chunk_text small_chunker small_doc ''doc.txt'') =
       [''aaaa bbbb'', ''bbbb cccccccc'']
   \<and> map co_character_count (chunk_text small_chunker small_doc ''doc.txt'') = [9, 13]"
  by code_simp

lemma strip_no_outer_space:
  assumes "s \<noteq> []" and "\<not> is_space (hd s)" and "\<not> is_space (last s)"
  shows "strip s = s"
proof -
  have a: "dropWhile is_space s = s"
    using assms(1,2) by (cases s) auto
  have "rev s \<noteq> []" and "\<not> is_space (hd (rev s))"
    using assms(1,3) by (simp_all add: hd_rev)
  then have b: "dropWhile is_space (rev s) = rev s"
    by (cases "rev s") auto
  show ?thesis unfolding strip_def a b by simp
qed

text \<open>
  The same in general, for the simplest case: two sentences without whitespace, each
  within the maximum but not both together, the first no longer than the overlap. The
  second passage is the first sentence, a space and the second sentence, longer than the
  maximum.
\<close>

lemma create_semantic_chunks_two:
  assumes "s1 \<noteq> []" and "s2 \<noteq> []"
    and "\<forall>c\<in>set s1. \<not> is_space c" and "\<forall>c\<in>set s2. \<not> is_space c"
    and "int (length s1) \<le> chunk_size self"
    and "int (length s1) \<le> overlap self"
    and "chunk_size self < int (length s1) + 1 + int (length s2)"
  shows "create_semantic_chunks self [s1, s2] = [s1, s1 @ '' '' @ s2]"
proof -
  have o: "0 < overlap self" using assms(1,6) by (cases s1) auto
  have g: "get_overlap_text s1 (overlap self) = s1"
    using assms(6) by (simp add: get_overlap_text_def)
  have t1: "strip s1 = s1"
    using assms(1,3) by (intro strip_no_outer_space) auto
  have "hd (s1 @ '' '' @ s2) = hd s1" "last (s1 @ '' '' @ s2) = last s2"
    using assms(1,2) by auto
  then have t2: "strip (s1 @ '' '' @ s2) = s1 @ '' '' @ s2"
    using assms(1-4) by (intro strip_no_outer_space) auto
  show ?thesis
    using assms(1,2,5,7) o g t1 t2
    by (simp add: create_semantic_chunks_def Let_def)
qed

lemma default_config_overlap_exceeds_limit:
  "chunk_size default_chunker = 1000
   \<and> overlap default_chunker = 200
   \<and> create_semantic_chunks default_chunker
        [replicate 150 (CHR ''a''), replicate 900 (CHR ''b'')] =
       [replicate 150 (CHR ''a''),
        replicate 150 (CHR ''a'') @ '' '' @ replicate 900 (CHR ''b'')]
   \<and> length (replicate 150 (CHR ''a'') @ '' '' @ replicate 900 (CHR ''b'')) = 1051"
proof -
  have c: "chunk_size default_chunker = 1000 \<and> overlap default_chunker = 200"
    by (simp add: default_chunker_def SmartChunker_init_def CHUNK_SIZE_def CHUNK_OVERLAP_def)
  have "create_semantic_chunks default_chunker
        [replicate 150 (CHR ''a''), replicate 900 (CHR ''b'')] =
       [replicate 150 (CHR ''a''),
        replicate 150 (CHR ''a'') @ '' '' @ replicate 900 (CHR ''b'')]"
    by (rule create_semantic_chunks_two) (simp_all add: c is_space_def)
  then show ?thesis using c by simp
qed

end
